theory Spec2Isabelle
  imports Main
begin

section \<open>JavaScript values used by the controller\<close>

text \<open>
  The playlist controller (\<^verbatim>\<open>src/src/controller.js\<close>) keeps its state in fields of
  the controller object. Two of them hold the JavaScript values \<^verbatim>\<open>null\<close> and
  \<^verbatim>\<open>undefined\<close> besides a proper value, and the code tells the three apart
  (\<^verbatim>\<open>!== null\<close> is true of \<^verbatim>\<open>undefined\<close>), so the model keeps all three.
\<close>

datatype 'a js = Null | Undefined | Val 'a

text \<open>A JavaScript number that is used as an array index: an integer or \<^verbatim>\<open>NaN\<close>.\<close>

datatype num = NaN | Num int

text \<open>\<^verbatim>\<open>!x\<close> for a field that holds null, undefined or an object.\<close>

fun falsy :: "'a js \<Rightarrow> bool" where
  "falsy Null = True"
| "falsy Undefined = True"
| "falsy (Val v) = False"

text \<open>
  \<^verbatim>\<open>a % b\<close> on integers: the remainder takes the sign of the dividend, and
  \<^verbatim>\<open>a % 0\<close> is \<^verbatim>\<open>NaN\<close>.
\<close>

definition js_rem :: "int \<Rightarrow> int \<Rightarrow> num" where
  "js_rem a b = (if b = 0 then NaN else Num (sgn a * (\<bar>a\<bar> mod \<bar>b\<bar>)))"

text \<open>\<^verbatim>\<open>xs[i]\<close>: \<^verbatim>\<open>undefined\<close> outside the array (also for a negative index and for NaN).\<close>

fun js_nth :: "'a list \<Rightarrow> num \<Rightarrow> 'a js" where
  "js_nth xs NaN = Undefined"
| "js_nth xs (Num i) = (if 0 \<le> i \<and> i < int (length xs) then Val (xs ! nat i) else Undefined)"

text \<open>
  \<^verbatim>\<open>Array.prototype.splice(start, ...)\<close> first clamps its start: a negative start counts
  from the end of the array, and a start beyond the end is the end.
\<close>

definition splice_start :: "int \<Rightarrow> nat \<Rightarrow> nat" where
  "splice_start i n = (if i < 0 then nat (max (int n + i) 0) else min (nat i) n)"

text \<open>\<^verbatim>\<open>xs.splice(i, 1)\<close>: removes the element at the clamped start, if there is one.\<close>

definition splice_remove :: "int \<Rightarrow> 'a list \<Rightarrow> 'a list" where
  "splice_remove i xs = take (splice_start i (length xs)) xs @ drop (Suc (splice_start i (length xs))) xs"

text \<open>\<^verbatim>\<open>xs.splice(i, 0, x)\<close>: inserts \<open>x\<close> before the clamped start.\<close>

definition splice_insert :: "int \<Rightarrow> 'a \<Rightarrow> 'a list \<Rightarrow> 'a list" where
  "splice_insert i x xs = take (splice_start i (length xs)) xs @ x # drop (splice_start i (length xs)) xs"

text \<open>
  \<^verbatim>\<open>xs.findIndex(p)\<close>: the index of the first element that satisfies \<open>p\<close>, and
  \<open>-1\<close> when there is none.
\<close>

fun findIndex_from :: "int \<Rightarrow> ('a \<Rightarrow> bool) \<Rightarrow> 'a list \<Rightarrow> int" where
  "findIndex_from k p [] = - 1"
| "findIndex_from k p (x # xs) = (if p x then k else findIndex_from (k + 1) p xs)"

definition findIndex :: "('a \<Rightarrow> bool) \<Rightarrow> 'a list \<Rightarrow> int" where
  "findIndex p xs = findIndex_from 0 p xs"

section \<open>The data model\<close>

text \<open>
  \<^verbatim>\<open>addedAt\<close> is \<^verbatim>\<open>new Date()\<close> when the item is created. \<^verbatim>\<open>JSON.stringify\<close> writes a
  Date as its ISO-8601 text and \<^verbatim>\<open>JSON.parse\<close> reads that text back as a string, so an
  item that went through the stored record carries a string. Both hold an instant in
  milliseconds; the constructor says which JavaScript value it is.
\<close>

datatype timestamp = DateObject int | IsoString int

text \<open>A queue item, as \<^verbatim>\<open>addToQueue\<close> builds it.\<close>

record item =
  videoId :: string
  title :: string
  channel :: string
  thumbnail :: string
  username :: "string option"
  startTime :: "nat option"
  addedAt :: timestamp

text \<open>
  The fields of the controller that the queue operations read and write
  (\<^verbatim>\<open>connect\<close>, lines 19 to 28). \<open>preservePlaylist\<close> is the mode: true is the
  looping playlist, false the queue that is consumed by playing.
\<close>

record state =
  queue :: "item list"
  currentVideo :: "item js"
  currentVideoIndex :: "num js"
  autoplay :: bool
  preservePlaylist :: bool

text \<open>What an operation asks of the embedded player.\<close>

datatype command = LoadVideoById string nat | CueVideoById string nat

text \<open>
  How a call ends besides its new state: without a player command, with one, or with
  the \<^verbatim>\<open>TypeError\<close> of reading \<^verbatim>\<open>this.currentVideo.videoId\<close> when
  \<^verbatim>\<open>this.currentVideo\<close> is undefined.
\<close>

datatype outcome = Silent | Issued command | TypeError

section \<open>playNext\<close>

text \<open>\<^verbatim>\<open>this.currentVideo.startTime || 0\<close>\<close>

definition startSeconds :: "item \<Rightarrow> nat" where
  "startSeconds v = (case startTime v of None \<Rightarrow> 0 | Some n \<Rightarrow> n)"

text \<open>
  The index that preserve mode moves to (lines 274 to 278): \<open>0\<close> when the index is
  null, and \<^verbatim>\<open>(index + 1) % length\<close> otherwise, which is NaN for an undefined index.
\<close>

fun nextIndex :: "num js \<Rightarrow> nat \<Rightarrow> num" where
  "nextIndex Null n = Num 0"
| "nextIndex Undefined n = NaN"
| "nextIndex (Val NaN) n = NaN"
| "nextIndex (Val (Num i)) n = js_rem (i + 1) (int n)"

text \<open>
  The state change of lines 272 to 284, which \<^verbatim>\<open>playNext\<close> reaches with a queue that
  is not empty (\<^verbatim>\<open>shift\<close> on an empty array would return undefined).
\<close>

definition advance :: "state \<Rightarrow> state" where
  "advance s =
    (if preservePlaylist s
     then s\<lparr>currentVideoIndex := Val (nextIndex (currentVideoIndex s) (length (queue s))),
            currentVideo := js_nth (queue s) (nextIndex (currentVideoIndex s) (length (queue s)))\<rparr>
     else (case queue s of
             x # xs \<Rightarrow> s\<lparr>currentVideo := Val x, queue := xs, currentVideoIndex := Null\<rparr>
           | [] \<Rightarrow> s\<lparr>currentVideo := Undefined, currentVideoIndex := Null\<rparr>))"

text \<open>
  The player command of lines 290 to 298. \<open>player\<close> says whether
  \<^verbatim>\<open>this.player && this.player.loadVideoById\<close> holds.
\<close>

definition loadCommand :: "bool \<Rightarrow> bool \<Rightarrow> state \<Rightarrow> outcome" where
  "loadCommand manual player s =
    (if player
     then (case currentVideo s of
             Val v \<Rightarrow> Issued (if manual \<or> autoplay s
                               then LoadVideoById (videoId v) (startSeconds v)
                               else CueVideoById (videoId v) (startSeconds v))
           | Null \<Rightarrow> TypeError
           | Undefined \<Rightarrow> TypeError)
     else Silent)"

text \<open>
  \<^verbatim>\<open>playNext(manual)\<close>, lines 264 to 299. On the empty queue it clears the current
  video and the index and returns before the player is touched.
\<close>

definition playNext :: "bool \<Rightarrow> bool \<Rightarrow> state \<Rightarrow> state \<times> outcome" where
  "playNext manual player s =
    (if queue s = []
     then (s\<lparr>currentVideo := Null, currentVideoIndex := Null\<rparr>, Silent)
     else (advance s, loadCommand manual player (advance s)))"

section \<open>addToQueue\<close>

text \<open>
  What the noembed request of \<^verbatim>\<open>fetchVideoInfo\<close> comes back with: the request or
  the reading of its body fails (the promise rejects), or the body is a JSON object,
  whose \<^verbatim>\<open>title\<close>, \<^verbatim>\<open>author_name\<close> and \<^verbatim>\<open>thumbnail_url\<close> may be missing.
\<close>

datatype response = Rejected | Body "string option" "string option" "string option"

text \<open>The value \<^verbatim>\<open>fetchVideoInfo\<close> resolves with: title, channel, thumbnail.\<close>

datatype lookup = Failed | Found string string string

text \<open>\<^verbatim>\<open>x || d\<close> for a string that may be missing: the empty string is falsy too.\<close>

fun orElse :: "string option \<Rightarrow> string \<Rightarrow> string" where
  "orElse None d = d"
| "orElse (Some x) d = (if x = [] then d else x)"

definition defaultThumbnail :: "string \<Rightarrow> string" where
  "defaultThumbnail v = ''https://img.youtube.com/vi/'' @ v @ ''/mqdefault.jpg''"

text \<open>\<^verbatim>\<open>fetchVideoInfo\<close>, lines 200 to 209.\<close>

fun fetchVideoInfo :: "string \<Rightarrow> response \<Rightarrow> lookup" where
  "fetchVideoInfo v Rejected = Failed"
| "fetchVideoInfo v (Body t a th) =
     Found (orElse t ''Unknown Title'') (orElse a ''Unknown Channel'') (orElse th (defaultThumbnail v))"

text \<open>The item of the \<^verbatim>\<open>try\<close> branch (lines 167 to 175); \<open>now\<close> is \<^verbatim>\<open>new Date()\<close>.\<close>

definition queueItem :: "string \<Rightarrow> string option \<Rightarrow> nat option \<Rightarrow> int \<Rightarrow> string \<Rightarrow> string \<Rightarrow> string \<Rightarrow> item" where
  "queueItem v u st now t c th =
    \<lparr>videoId = v, title = t, channel = c, thumbnail = th, username = u, startTime = st,
     addedAt = DateObject now\<rparr>"

text \<open>The item of the \<^verbatim>\<open>catch\<close> branch (lines 187 to 195).\<close>

definition placeholder :: "string \<Rightarrow> string option \<Rightarrow> nat option \<Rightarrow> int \<Rightarrow> item" where
  "placeholder v u st now =
    \<lparr>videoId = v, title = ''Video '' @ v, channel = ''Unknown'', thumbnail = defaultThumbnail v,
     username = u, startTime = st, addedAt = DateObject now\<rparr>"

text \<open>
  The duplicate check of lines 161 to 163, which runs when \<^verbatim>\<open>addToQueue\<close> is called:
  true when some item of the queue has the identifier.
\<close>

definition inQueue :: "string \<Rightarrow> state \<Rightarrow> bool" where
  "inQueue v s = (v \<in> videoId ` set (queue s))"

text \<open>
  The rest of \<^verbatim>\<open>addToQueue\<close>, which runs when the awaited lookup has settled (lines 165
  to 197). A lookup that succeeded appends the item and, when there is no current
  video, calls \<^verbatim>\<open>playNext(false)\<close>. The \<^verbatim>\<open>catch\<close> branch appends the placeholder: it
  is taken when the lookup failed, and also when \<^verbatim>\<open>playNext\<close> throws inside the
  \<^verbatim>\<open>try\<close> block, after the first item is in the queue.
\<close>

definition addToQueue_settled ::
  "string \<Rightarrow> string option \<Rightarrow> nat option \<Rightarrow> int \<Rightarrow> lookup \<Rightarrow> bool \<Rightarrow> state \<Rightarrow> state \<times> outcome" where
  "addToQueue_settled v u st now res player s =
    (case res of
       Failed \<Rightarrow> (s\<lparr>queue := queue s @ [placeholder v u st now]\<rparr>, Silent)
     | Found t c th \<Rightarrow>
         (if falsy (currentVideo s)
          then (case playNext False player (s\<lparr>queue := queue s @ [queueItem v u st now t c th]\<rparr>) of
                  (s', TypeError) \<Rightarrow> (s'\<lparr>queue := queue s' @ [placeholder v u st now]\<rparr>, Silent)
                | (s', Silent) \<Rightarrow> (s', Silent)
                | (s', Issued c) \<Rightarrow> (s', Issued c))
          else (s\<lparr>queue := queue s @ [queueItem v u st now t c th]\<rparr>, Silent)))"

text \<open>
  \<^verbatim>\<open>await addToQueue(videoId, username, startTime)\<close>: a call that runs to its end
  before anything else touches the controller, as the calls of \<^verbatim>\<open>loadSharedPlaylist\<close>
  do.
\<close>

definition addToQueue ::
  "string \<Rightarrow> string option \<Rightarrow> nat option \<Rightarrow> int \<Rightarrow> lookup \<Rightarrow> bool \<Rightarrow> state \<Rightarrow> state \<times> outcome" where
  "addToQueue v u st now res player s =
    (if inQueue v s then (s, Silent) else addToQueue_settled v u st now res player s)"

text \<open>A sequence of awaited calls: identifier, user, start time, clock and lookup of each.\<close>

fun enqueueAll :: "bool \<Rightarrow> (string \<times> string option \<times> nat option \<times> int \<times> lookup) list \<Rightarrow> state \<Rightarrow> state" where
  "enqueueAll player [] s = s"
| "enqueueAll player ((v, u, st, now, res) # cs) s =
     enqueueAll player cs (fst (addToQueue v u st now res player s))"

subsection \<open>Calls that are not awaited\<close>

text \<open>
  \<^verbatim>\<open>processMessage\<close> and \<^verbatim>\<open>addYoutubeLink\<close> call \<^verbatim>\<open>addToQueue\<close> without
  awaiting it: the call runs up to its \<^verbatim>\<open>await\<close> (the duplicate check), and the rest
  runs when the lookup settles, after whatever else has run in between. The world is
  the controller's state and the calls whose lookup is under way.
\<close>

record world =
  engine :: state
  pending :: "(string \<times> string option \<times> nat option) list"

datatype event =
  Call string "string option" "nat option"
| Settle nat int lookup

fun step :: "bool \<Rightarrow> world \<Rightarrow> event \<Rightarrow> world" where
  "step player w (Call v u st) =
     (if inQueue v (engine w) then w else w\<lparr>pending := pending w @ [(v, u, st)]\<rparr>)"
| "step player w (Settle k now res) =
     (if k < length (pending w)
      then (case pending w ! k of
              (v, u, st) \<Rightarrow>
                w\<lparr>engine := fst (addToQueue_settled v u st now res player (engine w)),
                  pending := take k (pending w) @ drop (Suc k) (pending w)\<rparr>)
      else w)"

definition run :: "bool \<Rightarrow> event list \<Rightarrow> world \<Rightarrow> world" where
  "run player es w = foldl (step player) w es"

section \<open>The other queue operations\<close>

text \<open>
  \<^verbatim>\<open>previous\<close>, lines 301 to 323. \<^verbatim>\<open>undefined - 1\<close> and \<^verbatim>\<open>NaN - 1\<close> are NaN.
\<close>

fun previousIndex :: "num js \<Rightarrow> nat \<Rightarrow> num" where
  "previousIndex Null n = Num 0"
| "previousIndex Undefined n = NaN"
| "previousIndex (Val NaN) n = NaN"
| "previousIndex (Val (Num i)) n = (if i = 0 then Num (int n - 1) else Num (i - 1))"

definition previous :: "bool \<Rightarrow> state \<Rightarrow> state \<times> outcome" where
  "previous player s =
    (if \<not> player then (s, Silent)
     else if preservePlaylist s \<and> queue s \<noteq> []
     then (s\<lparr>currentVideoIndex := Val (previousIndex (currentVideoIndex s) (length (queue s))),
             currentVideo := js_nth (queue s) (previousIndex (currentVideoIndex s) (length (queue s)))\<rparr>,
           (case js_nth (queue s) (previousIndex (currentVideoIndex s) (length (queue s))) of
              Val v \<Rightarrow> Issued (LoadVideoById (videoId v) (startSeconds v))
            | Null \<Rightarrow> TypeError
            | Undefined \<Rightarrow> TypeError))
     else (s, Silent))"

text \<open>\<^verbatim>\<open>reset\<close>, lines 354 to 390: the queue and the current video; the index is not touched.\<close>

definition reset :: "state \<Rightarrow> state" where
  "reset s = s\<lparr>queue := [], currentVideo := Null\<rparr>"

text \<open>\<^verbatim>\<open>stop\<close>, lines 329 to 352.\<close>

definition stop :: "bool \<Rightarrow> state \<Rightarrow> state \<times> outcome" where
  "stop player s =
    (if \<not> player then (s, Silent)
     else if queue s = [] then (reset (s\<lparr>currentVideo := Null\<rparr>), Silent)
     else if autoplay s then playNext False player (s\<lparr>currentVideo := Null\<rparr>)
     else (s\<lparr>currentVideo := Null\<rparr>, Silent))"

text \<open>\<^verbatim>\<open>toggleAutoplay\<close>, lines 460 to 463; \<open>checked\<close> is the state of the toggle.\<close>

definition toggleAutoplay :: "bool \<Rightarrow> state \<Rightarrow> state" where
  "toggleAutoplay checked s = s\<lparr>autoplay := checked\<rparr>"

text \<open>\<^verbatim>\<open>togglePreservePlaylist\<close>, lines 465 to 477.\<close>

definition togglePreservePlaylist :: "bool \<Rightarrow> state \<Rightarrow> state" where
  "togglePreservePlaylist checked s =
    (case currentVideo s of
       Val cur \<Rightarrow>
         (if checked
          then s\<lparr>preservePlaylist := checked,
                 currentVideoIndex := Val (Num (findIndex (\<lambda>it. videoId it = videoId cur) (queue s)))\<rparr>
          else s\<lparr>preservePlaylist := checked, currentVideoIndex := Null\<rparr>)
     | Null \<Rightarrow> s\<lparr>preservePlaylist := checked, currentVideoIndex := Null\<rparr>
     | Undefined \<Rightarrow> s\<lparr>preservePlaylist := checked, currentVideoIndex := Null\<rparr>)"

text \<open>
  \<^verbatim>\<open>removeFromQueue\<close>, lines 503 to 508; \<open>index\<close> is the \<^verbatim>\<open>data-index\<close> of the
  button. There is no check of the index and nothing is thrown.
\<close>

definition removeFromQueue :: "int \<Rightarrow> state \<Rightarrow> state" where
  "removeFromQueue index s = s\<lparr>queue := splice_remove index (queue s)\<rparr>"

text \<open>\<^verbatim>\<open>clearQueue\<close>, lines 510 to 514.\<close>

definition clearQueue :: "state \<Rightarrow> state" where
  "clearQueue s = s\<lparr>queue := []\<rparr>"

subsection \<open>drop: reordering by drag and drop\<close>

text \<open>
  The index update of lines 849 to 860, on the indices the drag reported. The
  comparisons are false for an index that is undefined or NaN.
\<close>

definition rebase :: "int \<Rightarrow> int \<Rightarrow> state \<Rightarrow> num js" where
  "rebase draggedIndex dropIndex s =
    (if preservePlaylist s
     then (case currentVideoIndex s of
             Val (Num c) \<Rightarrow>
               (if draggedIndex = c then Val (Num dropIndex)
                else if draggedIndex < c \<and> dropIndex \<ge> c then Val (Num (c - 1))
                else if draggedIndex > c \<and> dropIndex \<le> c then Val (Num (c + 1))
                else Val (Num c))
           | Val NaN \<Rightarrow> Val NaN
           | Null \<Rightarrow> Null
           | Undefined \<Rightarrow> Undefined)
     else currentVideoIndex s)"

text \<open>
  What \<^verbatim>\<open>drop\<close> leaves: a state, or an array that holds \<^verbatim>\<open>undefined\<close>. When the
  dragged index is outside the queue, \<^verbatim>\<open>this.queue[this.draggedIndex]\<close> is undefined and
  the second \<^verbatim>\<open>splice\<close> inserts it; such an array is no list of items. Nothing is thrown
  in either case.
\<close>

datatype dropped = Items state | HoldsUndefined

text \<open>
  \<^verbatim>\<open>drop\<close>, lines 829 to 865. \<open>draggedIndex\<close> is \<^verbatim>\<open>this.draggedIndex\<close>: the index
  that \<^verbatim>\<open>dragStart\<close> stored, null after \<^verbatim>\<open>dragEnd\<close>, and undefined before the first
  drag, since \<^verbatim>\<open>connect\<close> does not assign it. \<open>dropIndex\<close> is the \<^verbatim>\<open>data-index\<close> of
  the drop target. Only null passes the guard \<^verbatim>\<open>this.draggedIndex === null\<close>; with
  undefined the code goes on, \<^verbatim>\<open>this.queue[undefined]\<close> is undefined and the second
  \<^verbatim>\<open>splice\<close> inserts it.
\<close>

definition drop_item :: "int js \<Rightarrow> int \<Rightarrow> state \<Rightarrow> dropped" where
  "drop_item draggedIndex dropIndex s =
    (case draggedIndex of
       Null \<Rightarrow> Items s
     | Undefined \<Rightarrow> HoldsUndefined
     | Val d \<Rightarrow>
         (if d = dropIndex then Items s
          else (case js_nth (queue s) (Num d) of
                  Val draggedItem \<Rightarrow>
                    Items (s\<lparr>queue := splice_insert dropIndex draggedItem (splice_remove d (queue s)),
                             currentVideoIndex := rebase d dropIndex s\<rparr>)
                | Null \<Rightarrow> HoldsUndefined
                | Undefined \<Rightarrow> HoldsUndefined)))"

section \<open>Persistence\<close>

text \<open>
  The object that \<^verbatim>\<open>JSON.parse\<close> returns for the stored text, for the keys the queue
  needs; the stored object also holds \<^verbatim>\<open>channelName\<close>, \<^verbatim>\<open>volume\<close>, \<^verbatim>\<open>isMuted\<close> and
  \<^verbatim>\<open>previousVolume\<close>, which mirror the chat connection and the player and are left out.
  A key may be missing (\<open>Undefined\<close>, \<open>None\<close>); \<open>None\<close> also stands for a
  value that fails the test \<^verbatim>\<open>loadState\<close> makes of it (\<^verbatim>\<open>Array.isArray\<close>,
  \<^verbatim>\<open>typeof ... === 'boolean'\<close>). JSON has no NaN and no undefined, so the index is
  null, missing or an integer.
\<close>

record saved =
  saved_queue :: "item list option"
  saved_currentVideo :: "item js"
  saved_currentVideoIndex :: "int js"
  saved_autoplay :: "bool option"
  saved_preservePlaylist :: "bool option"

text \<open>
  What \<^verbatim>\<open>localStorage.getItem('youtubePlayerState')\<close> holds: nothing (null or the empty
  string), a text that makes \<^verbatim>\<open>JSON.parse\<close> throw (or that parses to null, so that
  \<^verbatim>\<open>state.queue\<close> throws), or a text that parses to an object.
\<close>

datatype storage = NoItem | Unparseable | Parsed saved

text \<open>An item after \<^verbatim>\<open>JSON.stringify\<close> and \<^verbatim>\<open>JSON.parse\<close>: the Date has become a string.\<close>

definition json_item :: "item \<Rightarrow> item" where
  "json_item it =
    it\<lparr>addedAt := (case addedAt it of DateObject t \<Rightarrow> IsoString t | IsoString t \<Rightarrow> IsoString t)\<rparr>"

text \<open>
  \<^verbatim>\<open>saveState\<close>, lines 886 to 899, as the object that parsing the stored text gives
  back. \<^verbatim>\<open>JSON.stringify\<close> leaves out a key whose value is undefined and writes NaN as
  null.
\<close>

definition saveState :: "state \<Rightarrow> saved" where
  "saveState s =
    \<lparr>saved_queue = Some (map json_item (queue s)),
     saved_currentVideo =
       (case currentVideo s of Val v \<Rightarrow> Val (json_item v) | Null \<Rightarrow> Null | Undefined \<Rightarrow> Undefined),
     saved_currentVideoIndex =
       (case currentVideoIndex s of
          Val (Num i) \<Rightarrow> Val i | Val NaN \<Rightarrow> Null | Null \<Rightarrow> Null | Undefined \<Rightarrow> Undefined),
     saved_autoplay = Some (autoplay s),
     saved_preservePlaylist = Some (preservePlaylist s)\<rparr>"

text \<open>
  \<^verbatim>\<open>saveState\<close> of the earlier version of the controller (\<^verbatim>\<open>src/unnamed/part_000\<close>,
  lines 636 to 644), which had no index and no mode.
\<close>

definition saveState_old :: "state \<Rightarrow> saved" where
  "saveState_old s =
    \<lparr>saved_queue = Some (map json_item (queue s)),
     saved_currentVideo =
       (case currentVideo s of Val v \<Rightarrow> Val (json_item v) | Null \<Rightarrow> Null | Undefined \<Rightarrow> Undefined),
     saved_currentVideoIndex = Undefined,
     saved_autoplay = Some (autoplay s),
     saved_preservePlaylist = None\<rparr>"

text \<open>The steps of \<^verbatim>\<open>loadState\<close> on a parsed object, lines 907 to 933.\<close>

definition restoreQueue :: "saved \<Rightarrow> state \<Rightarrow> state" where
  "restoreQueue r s = (case saved_queue r of Some q \<Rightarrow> s\<lparr>queue := q\<rparr> | None \<Rightarrow> s)"

definition restoreIndex :: "int js \<Rightarrow> num js" where
  "restoreIndex i = (case i of Val k \<Rightarrow> Val (Num k) | Null \<Rightarrow> Null | Undefined \<Rightarrow> Undefined)"

definition restoreCurrent :: "saved \<Rightarrow> state \<Rightarrow> state" where
  "restoreCurrent r s =
    (case saved_currentVideo r of
       Val v \<Rightarrow> s\<lparr>currentVideo := Val v, currentVideoIndex := restoreIndex (saved_currentVideoIndex r)\<rparr>
     | Null \<Rightarrow> s
     | Undefined \<Rightarrow> s)"

definition restoreAutoplay :: "saved \<Rightarrow> state \<Rightarrow> state" where
  "restoreAutoplay r s = (case saved_autoplay r of Some b \<Rightarrow> s\<lparr>autoplay := b\<rparr> | None \<Rightarrow> s)"

definition restorePreserve :: "saved \<Rightarrow> state \<Rightarrow> state" where
  "restorePreserve r s =
    (case saved_preservePlaylist r of Some b \<Rightarrow> s\<lparr>preservePlaylist := b\<rparr> | None \<Rightarrow> s)"

text \<open>
  \<^verbatim>\<open>loadState\<close>, lines 901 to 959: the \<^verbatim>\<open>catch\<close> swallows the failure of parsing, and
  nothing has been assigned when it is reached.
\<close>

fun loadState :: "storage \<Rightarrow> state \<Rightarrow> state" where
  "loadState NoItem s = s"
| "loadState Unparseable s = s"
| "loadState (Parsed r) s = restorePreserve r (restoreAutoplay r (restoreCurrent r (restoreQueue r s)))"

text \<open>
  The defaults of the Stimulus values (lines 12 to 16), used when the element carries no
  attribute for them.
\<close>

definition autoplayValue_default :: bool where
  "autoplayValue_default = False"

definition preservePlaylistValue_default :: bool where
  "preservePlaylistValue_default = True"

text \<open>
  \<^verbatim>\<open>connect\<close>, lines 18 to 29: the fields are set from the values and then
  \<^verbatim>\<open>loadState\<close> runs.
\<close>

definition fresh :: "bool \<Rightarrow> bool \<Rightarrow> state" where
  "fresh autoplayValue preservePlaylistValue =
    \<lparr>queue = [], currentVideo = Null, currentVideoIndex = Null,
     autoplay = autoplayValue, preservePlaylist = preservePlaylistValue\<rparr>"

definition connect :: "bool \<Rightarrow> bool \<Rightarrow> storage \<Rightarrow> state" where
  "connect autoplayValue preservePlaylistValue st = loadState st (fresh autoplayValue preservePlaylistValue)"

text \<open>Storing and loading again in a new page: \<^verbatim>\<open>saveState\<close>, then \<^verbatim>\<open>connect\<close>.\<close>

definition reload :: "bool \<Rightarrow> bool \<Rightarrow> state \<Rightarrow> state" where
  "reload autoplayValue preservePlaylistValue s =
    connect autoplayValue preservePlaylistValue (Parsed (saveState s))"


section \<open>The link extractor\<close>

text \<open>
  Text is modelled as a list of 8-bit characters, which is exact for ASCII text; the
  regular expressions below name ASCII characters only.
\<close>

subsection \<open>Regular expressions with JavaScript's matching order\<close>


















subsection \<open>The query of a link\<close>










subsection \<open>The start offset\<close>



text \<open>
  \<^verbatim>\<open>parseInt\<close> of a string of digits: its decimal value. A JavaScript number holds it
  exactly up to \<open>2^53 - 1\<close> and rounds it beyond; the model computes with natural
  numbers, so it is the code's value only up to that bound, and the theorems about the
  start offset are stated within it.
\<close>

definition parseInt :: "string \<Rightarrow> nat" where
  "parseInt d = foldl (\<lambda>n c. 10 * n + (of_char c - 48)) 0 d"






section \<open>Example states\<close>

text \<open>An item with the identifier \<open>v\<close>, and a queue of three items.\<close>

definition sample :: "string \<Rightarrow> item" where
  "sample v = placeholder v None None 0"

definition abc :: "bool \<Rightarrow> num js \<Rightarrow> state" where
  "abc preserve i =
    \<lparr>queue = [sample ''A'', sample ''B'', sample ''C''], currentVideo = Null,
     currentVideoIndex = i, autoplay = False, preservePlaylist = preserve\<rparr>"

text \<open>
  What a sequence of awaited calls keeps: no two items of the queue share an identifier,
  and the index is null while there is no current video.
\<close>

definition tidy :: "state \<Rightarrow> bool" where
  "tidy s = (distinct (map videoId (queue s)) \<and> (if falsy (currentVideo s) then currentVideoIndex s = Null else True))"

text \<open>The controller after \<^verbatim>\<open>connect\<close> with nothing stored and no lookup under way.\<close>

definition idle :: world where
  "idle = \<lparr>engine = fresh autoplayValue_default preservePlaylistValue_default, pending = []\<rparr>"

text \<open>Consume mode after the first item of three has started to play.\<close>

definition playingA :: state where
  "playingA = fst (playNext False True (abc False Null))"

text \<open>Preserve mode with four items, the third of which is playing.\<close>

definition abcd :: state where
  "abcd =
    \<lparr>queue = [sample ''A'', sample ''B'', sample ''C'', sample ''D''], currentVideo = Val (sample ''C''),
     currentVideoIndex = Val (Num 2), autoplay = False, preservePlaylist = True\<rparr>"

text \<open>
  An item whose \<^verbatim>\<open>addedAt\<close> is a string, as in every item that was read from the
  stored record.
\<close>

definition isoStamped :: "item \<Rightarrow> bool" where
  "isoStamped it = (case addedAt it of IsoString t \<Rightarrow> True | DateObject t \<Rightarrow> False)"

text \<open>
  A state that the stored record can hold: the items carry strings for \<^verbatim>\<open>addedAt\<close>,
  the current video is null or an item, the index is not NaN, and the index is null
  when there is no current video.
\<close>

definition storable :: "state \<Rightarrow> bool" where
  "storable s =
    (list_all isoStamped (queue s)
     \<and> (case currentVideo s of
          Val v \<Rightarrow> isoStamped v \<and> currentVideoIndex s \<noteq> Val NaN
        | Null \<Rightarrow> currentVideoIndex s = Null
        | Undefined \<Rightarrow> False))"

text \<open>
  One item is enqueued in preserve mode, the page is loaded again, and \<^verbatim>\<open>stop\<close> is
  pressed: the current video is null and the index is still 0.
\<close>

definition stopped :: state where
  "stopped =
    fst (stop True (reload False True
      (fst (addToQueue ''A'' None None 0 (Found ''Title'' ''Channel'' ''Thumb'') True (fresh False True)))))"

text \<open>A stored object without any of the keys.\<close>

definition nothingSaved :: saved where
  "nothingSaved =
    \<lparr>saved_queue = None, saved_currentVideo = Undefined, saved_currentVideoIndex = Undefined,
     saved_autoplay = None, saved_preservePlaylist = None\<rparr>"


text \<open>
  Consume mode plays A and keeps B and C; the mode is switched to preserve, which leaves
  the index at \<open>-1\<close>; then \<^verbatim>\<open>previous\<close> is pressed.
\<close>

definition movedBack :: state where
  "movedBack = fst (previous True (togglePreservePlaylist True playingA))"

text \<open>
  The earlier version of the controller stored the same queue and current video; this
  version loads that record with the declared values.
\<close>

definition oldRecord :: state where
  "oldRecord = connect autoplayValue_default preservePlaylistValue_default (Parsed (saveState_old playingA))"

section \<open>Advancing: playNext\<close>

lemma js_rem_nonneg: "0 \<le> a \<Longrightarrow> 0 < b \<Longrightarrow> js_rem a b = Num (a mod b)"
  by (cases "a = 0") (simp_all add: js_rem_def)

text \<open>
  \<^verbatim>\<open>playNext\<close> where the index is null or a number from \<open>-1\<close> on. On the empty
  queue it sets \<open>currentVideo\<close> and \<open>currentVideoIndex\<close> to null and issues no
  player command. On a queue that is not empty: in consume mode the head of the queue
  becomes the current video, the queue loses it and the index is null; in preserve mode
  the queue stays, the index becomes \<open>(i + 1) mod length\<close> when it was the number
  \<open>i\<close> (an index, or the \<open>-1\<close> of a failed search) and \<open>0\<close> when it was null,
  and the current video is the queue's item at the new index. With three items and the
  index at 2 the new index is 0.
\<close>

theorem playNext_postcondition:
  "(queue s = [] \<longrightarrow>
      playNext manual player s = (s\<lparr>currentVideo := Null, currentVideoIndex := Null\<rparr>, Silent))
   \<and> (queue s = x # xs \<and> \<not> preservePlaylist s \<longrightarrow>
      fst (playNext manual player s) = s\<lparr>currentVideo := Val x, queue := xs, currentVideoIndex := Null\<rparr>)
   \<and> (queue s \<noteq> [] \<and> preservePlaylist s \<and> currentVideoIndex s = Val (Num i) \<and> - 1 \<le> i \<longrightarrow>
      fst (playNext manual player s) =
        s\<lparr>currentVideoIndex := Val (Num ((i + 1) mod int (length (queue s)))),
          currentVideo := Val (queue s ! nat ((i + 1) mod int (length (queue s))))\<rparr>)
   \<and> (queue s \<noteq> [] \<and> preservePlaylist s \<and> currentVideoIndex s = Null \<longrightarrow>
      fst (playNext manual player s) = s\<lparr>currentVideoIndex := Val (Num 0), currentVideo := Val (queue s ! 0)\<rparr>)
   \<and> (length (queue s) = 3 \<and> preservePlaylist s \<and> currentVideoIndex s = Val (Num 2) \<longrightarrow>
      currentVideoIndex (fst (playNext True player s)) = Val (Num 0))"
proof -
  have empty: "queue s = [] \<longrightarrow>
      playNext manual player s = (s\<lparr>currentVideo := Null, currentVideoIndex := Null\<rparr>, Silent)"
    by (simp add: playNext_def)
  have consume: "queue s = x # xs \<and> \<not> preservePlaylist s \<longrightarrow>
      fst (playNext manual player s) = s\<lparr>currentVideo := Val x, queue := xs, currentVideoIndex := Null\<rparr>"
    by (simp add: playNext_def advance_def)
  have step: "queue s \<noteq> [] \<and> preservePlaylist s \<and> currentVideoIndex s = Val (Num i) \<and> - 1 \<le> i \<longrightarrow>
      fst (playNext manual player s) =
        s\<lparr>currentVideoIndex := Val (Num ((i + 1) mod int (length (queue s)))),
          currentVideo := Val (queue s ! nat ((i + 1) mod int (length (queue s))))\<rparr>"
  proof (intro impI, elim conjE)
    assume q: "queue s \<noteq> []" and p: "preservePlaylist s"
      and c: "currentVideoIndex s = Val (Num i)" and i: "- 1 \<le> i"
    have len: "0 < int (length (queue s))" using q by simp
    have r: "js_rem (i + 1) (int (length (queue s))) = Num ((i + 1) mod int (length (queue s)))"
      using i len by (intro js_rem_nonneg) simp_all
    have lo: "0 \<le> (i + 1) mod int (length (queue s))" using len by simp
    have hi: "(i + 1) mod int (length (queue s)) < int (length (queue s))" using len by simp
    show "fst (playNext manual player s) =
        s\<lparr>currentVideoIndex := Val (Num ((i + 1) mod int (length (queue s)))),
          currentVideo := Val (queue s ! nat ((i + 1) mod int (length (queue s))))\<rparr>"
      using q p c r lo hi by (simp add: playNext_def advance_def)
  qed
  have first: "queue s \<noteq> [] \<and> preservePlaylist s \<and> currentVideoIndex s = Null \<longrightarrow>
      fst (playNext manual player s) = s\<lparr>currentVideoIndex := Val (Num 0), currentVideo := Val (queue s ! 0)\<rparr>"
    by (simp add: playNext_def advance_def)
  have wrap: "length (queue s) = 3 \<and> preservePlaylist s \<and> currentVideoIndex s = Val (Num 2) \<longrightarrow>
      currentVideoIndex (fst (playNext True player s)) = Val (Num 0)"
    by (auto simp add: playNext_def advance_def js_rem_def)
  from empty consume step first wrap show ?thesis by blast
qed

text \<open>
  The theorem at the empty state, at three items in consume mode, at three items in
  preserve mode with the index at 2, and with the index null.
\<close>

theorem playNext_postcondition_witness:
  "playNext True True (fresh False True) = (fresh False True, Silent)
   \<and> fst (playNext True True (abc False Null)) =
       (abc False Null)\<lparr>currentVideo := Val (sample ''A''), queue := [sample ''B'', sample ''C'']\<rparr>
   \<and> fst (playNext True True (abc True (Val (Num 2)))) =
       (abc True (Val (Num 2)))\<lparr>currentVideoIndex := Val (Num 0), currentVideo := Val (sample ''A'')\<rparr>
   \<and> fst (playNext True True (abc True Null)) =
       (abc True Null)\<lparr>currentVideoIndex := Val (Num 0), currentVideo := Val (sample ''A'')\<rparr>"
  using playNext_postcondition [where s = "fresh False True" and manual = True and player = True]
    playNext_postcondition [where s = "abc False Null" and x = "sample ''A''"
      and xs = "[sample ''B'', sample ''C'']" and manual = True and player = True]
    playNext_postcondition [where s = "abc True (Val (Num 2))" and i = 2 and manual = True and player = True]
    playNext_postcondition [where s = "abc True Null" and manual = True and player = True]
  by (simp add: abc_def fresh_def)

text \<open>
  Claim C3. The postcondition holds on the states above, but not for every index that
  is not null. \<^verbatim>\<open>playNext\<close> computes \<^verbatim>\<open>(index + 1) % length\<close> from whatever the index
  is. After the switch to preserve mode left \<open>-1\<close> and \<^verbatim>\<open>previous\<close> made it
  \<open>-2\<close>, the next \<^verbatim>\<open>playNext\<close> on the queue B, C sets the index to \<open>-1\<close>, where
  the claim's \<open>(index + 1) mod length\<close> is 1, makes the current video undefined and
  throws at the player. After a record of the earlier version was loaded, the index is
  undefined, and \<^verbatim>\<open>playNext\<close> sets it to NaN, makes the current video undefined and
  throws.
\<close>

theorem playNext_on_stale_index:
  "preservePlaylist movedBack
   \<and> map videoId (queue movedBack) = [''B'', ''C'']
   \<and> currentVideoIndex movedBack = Val (Num (- 2))
   \<and> playNext True True movedBack =
       (movedBack\<lparr>currentVideoIndex := Val (Num (- 1)), currentVideo := Undefined\<rparr>, TypeError)
   \<and> (- 2 + 1) mod int (length (queue movedBack)) = 1
   \<and> preservePlaylist oldRecord
   \<and> map videoId (queue oldRecord) = [''B'', ''C'']
   \<and> currentVideoIndex oldRecord = Undefined
   \<and> playNext True True oldRecord =
       (oldRecord\<lparr>currentVideoIndex := Val NaN, currentVideo := Undefined\<rparr>, TypeError)"
proof -
  have m: "movedBack =
      \<lparr>queue = [sample ''B'', sample ''C''], currentVideo = Undefined,
       currentVideoIndex = Val (Num (- 2)), autoplay = False, preservePlaylist = True\<rparr>"
    by (simp add: movedBack_def playingA_def playNext_def advance_def abc_def sample_def placeholder_def
        togglePreservePlaylist_def findIndex_def previous_def)
  have o: "oldRecord =
      \<lparr>queue = [json_item (sample ''B''), json_item (sample ''C'')],
       currentVideo = Val (json_item (sample ''A'')),
       currentVideoIndex = Undefined, autoplay = False, preservePlaylist = True\<rparr>"
    by (simp add: oldRecord_def playingA_def playNext_def advance_def abc_def connect_def fresh_def
        saveState_old_def restoreQueue_def restoreCurrent_def restoreAutoplay_def restorePreserve_def
        restoreIndex_def autoplayValue_default_def preservePlaylistValue_default_def)
  have pm: "playNext True True movedBack =
       (movedBack\<lparr>currentVideoIndex := Val (Num (- 1)), currentVideo := Undefined\<rparr>, TypeError)"
    by (simp add: m playNext_def advance_def loadCommand_def js_rem_def)
  have po: "playNext True True oldRecord =
       (oldRecord\<lparr>currentVideoIndex := Val NaN, currentVideo := Undefined\<rparr>, TypeError)"
    by (simp add: o playNext_def advance_def loadCommand_def)
  have ids: "map videoId (queue movedBack) = [''B'', ''C'']" "map videoId (queue oldRecord) = [''B'', ''C'']"
    by (simp_all add: m o sample_def placeholder_def json_item_def)
  have rest: "preservePlaylist movedBack" "currentVideoIndex movedBack = Val (Num (- 2))"
    "(- 2 + 1) mod int (length (queue movedBack)) = 1"
    "preservePlaylist oldRecord" "currentVideoIndex oldRecord = Undefined"
    by (simp_all add: m o)
  from pm po ids rest show ?thesis by blast
qed

section \<open>Enqueueing: addToQueue\<close>

lemma videoId_queueItem [simp]: "videoId (queueItem v u st now t c th) = v"
  by (simp add: queueItem_def)

lemma videoId_placeholder [simp]: "videoId (placeholder v u st now) = v"
  by (simp add: placeholder_def)

lemma playNext_first:
  assumes "currentVideoIndex s = Null" and "queue s = x # xs"
  shows "playNext manual player s =
    (if preservePlaylist s
     then (s\<lparr>currentVideoIndex := Val (Num 0), currentVideo := Val x\<rparr>,
           loadCommand manual player (s\<lparr>currentVideoIndex := Val (Num 0), currentVideo := Val x\<rparr>))
     else (s\<lparr>currentVideo := Val x, queue := xs, currentVideoIndex := Null\<rparr>,
           loadCommand manual player (s\<lparr>currentVideo := Val x, queue := xs, currentVideoIndex := Null\<rparr>)))"
  using assms by (simp add: playNext_def advance_def)

lemma loadCommand_Val: "currentVideo s = Val x \<Longrightarrow> loadCommand manual player s \<noteq> TypeError"
  by (simp add: loadCommand_def)

lemma addToQueue_present: "inQueue v s \<Longrightarrow> addToQueue v u st now res player s = (s, Silent)"
  by (simp add: addToQueue_def)

lemma addToQueue_tidy:
  assumes "tidy s"
  shows "tidy (fst (addToQueue v u st now res player s))"
proof (cases "inQueue v s")
  case True
  then show ?thesis using assms by (simp add: addToQueue_def)
next
  case False
  then have new: "v \<notin> videoId ` set (queue s)" by (simp add: inQueue_def)
  show ?thesis
  proof (cases res)
    case Failed
    then show ?thesis
      using assms new False by (simp add: addToQueue_def addToQueue_settled_def tidy_def)
  next
    case (Found t c th)
    show ?thesis
    proof (cases "falsy (currentVideo s)")
      case False
      then show ?thesis
        using assms new Found \<open>\<not> inQueue v s\<close>
        by (simp add: addToQueue_def addToQueue_settled_def tidy_def)
    next
      case True
      then have idx: "currentVideoIndex s = Null" using assms by (simp add: tidy_def)
      obtain y ys where q: "queue s @ [queueItem v u st now t c th] = y # ys"
        by (cases "queue s") simp_all
      have d: "distinct (map videoId (y # ys))"
        using assms new unfolding q [symmetric] by (simp add: tidy_def)
      let ?s1 = "s\<lparr>queue := queue s @ [queueItem v u st now t c th]\<rparr>"
      have p: "playNext False player ?s1 =
        (if preservePlaylist s
         then (?s1\<lparr>currentVideoIndex := Val (Num 0), currentVideo := Val y\<rparr>,
               loadCommand False player (?s1\<lparr>currentVideoIndex := Val (Num 0), currentVideo := Val y\<rparr>))
         else (?s1\<lparr>currentVideo := Val y, queue := ys, currentVideoIndex := Null\<rparr>,
               loadCommand False player (?s1\<lparr>currentVideo := Val y, queue := ys, currentVideoIndex := Null\<rparr>)))"
        using playNext_first [of ?s1 y ys False player] idx q by simp
      show ?thesis
      proof (cases "preservePlaylist s")
        case True
        have "loadCommand False player (?s1\<lparr>currentVideoIndex := Val (Num 0), currentVideo := Val y\<rparr>) \<noteq> TypeError"
          by (rule loadCommand_Val) simp
        then show ?thesis
          using p True Found \<open>\<not> inQueue v s\<close> \<open>falsy (currentVideo s)\<close> d q
          by (cases "loadCommand False player (?s1\<lparr>currentVideoIndex := Val (Num 0), currentVideo := Val y\<rparr>)")
             (simp_all add: addToQueue_def addToQueue_settled_def tidy_def)
      next
        case False
        have "loadCommand False player (?s1\<lparr>currentVideo := Val y, queue := ys, currentVideoIndex := Null\<rparr>) \<noteq> TypeError"
          by (rule loadCommand_Val) simp
        then show ?thesis
          using p False Found \<open>\<not> inQueue v s\<close> \<open>falsy (currentVideo s)\<close> d
          by (cases "loadCommand False player (?s1\<lparr>currentVideo := Val y, queue := ys, currentVideoIndex := Null\<rparr>)")
             (simp_all add: addToQueue_def addToQueue_settled_def tidy_def)
      qed
    qed
  qed
qed

lemma enqueueAll_tidy: "tidy s \<Longrightarrow> tidy (enqueueAll player cs s)"
proof (induction cs arbitrary: s)
  case Nil
  then show ?case by simp
next
  case (Cons c cs)
  obtain v u st now res where c: "c = (v, u, st, now, res)" by (cases c) auto
  show ?case using Cons c by (simp add: addToQueue_tidy)
qed

lemma enqueueAll_distinct:
  "distinct (map videoId (queue (enqueueAll player cs (fresh autoplayValue preservePlaylistValue))))"
proof -
  have "tidy (fresh autoplayValue preservePlaylistValue)" by (simp add: tidy_def fresh_def)
  then have "tidy (enqueueAll player cs (fresh autoplayValue preservePlaylistValue))"
    by (rule enqueueAll_tidy)
  then show ?thesis by (simp add: tidy_def)
qed

lemma awaited_call_is_two_steps:
  "step player (step player w (Call v u st)) (Settle (length (pending w)) now res) =
     (if inQueue v (engine w) then step player w (Settle (length (pending w)) now res)
      else w\<lparr>engine := fst (addToQueue v u st now res player (engine w))\<rparr>)"
  by (simp add: addToQueue_def)

text \<open>
  Claim C2. A call for an identifier that is in the queue changes nothing
  (\<open>addToQueue_present\<close>), and awaited calls from the empty state never put an
  identifier into the queue twice (\<open>enqueueAll_distinct\<close>). But the check runs when
  \<^verbatim>\<open>addToQueue\<close> is called and the item is appended when the lookup has settled, and
  \<^verbatim>\<open>processMessage\<close> does not await the call: two chat messages with the same link,
  the second arriving while the lookup of the first is under way, both pass the check,
  and the queue then holds the identifier twice.
\<close>

theorem overlapping_calls_enqueue_twice:
  "map videoId (queue (engine (run True
      [Call ''dQw4w9WgXcQ'' (Some ''ann'') None, Call ''dQw4w9WgXcQ'' (Some ''bob'') None,
       Settle 0 1000 (Found ''Title'' ''Channel'' ''Thumb''), Settle 0 1001 (Found ''Title'' ''Channel'' ''Thumb'')]
      idle))) = [''dQw4w9WgXcQ'', ''dQw4w9WgXcQ'']"
  by (simp add: run_def idle_def fresh_def autoplayValue_default_def preservePlaylistValue_default_def
      inQueue_def addToQueue_settled_def playNext_def advance_def loadCommand_def queueItem_def)

text \<open>
  Claim C9. When the lookup fails for an identifier that is not in the queue,
  \<^verbatim>\<open>addToQueue\<close> appends the placeholder to the end of the queue and throws nothing;
  so does the rest of a call that was not awaited, whatever the queue has become. The
  placeholder's title is \<^verbatim>\<open>Video \<close> followed by the identifier, its channel is
  \<^verbatim>\<open>Unknown\<close>, and its thumbnail is an address built from the identifier alone.
\<close>

theorem lookup_failure_appends_placeholder:
  "(\<not> inQueue v s \<longrightarrow>
      addToQueue v u st now (fetchVideoInfo v Rejected) player s =
        (s\<lparr>queue := queue s @ [placeholder v u st now]\<rparr>, Silent))
   \<and> addToQueue_settled v u st now (fetchVideoInfo v Rejected) player s =
        (s\<lparr>queue := queue s @ [placeholder v u st now]\<rparr>, Silent)
   \<and> videoId (placeholder v u st now) = v
   \<and> title (placeholder v u st now) = ''Video '' @ v
   \<and> channel (placeholder v u st now) = ''Unknown''
   \<and> thumbnail (placeholder v u st now) = ''https://img.youtube.com/vi/'' @ v @ ''/mqdefault.jpg''"
  by (simp add: addToQueue_def addToQueue_settled_def placeholder_def defaultThumbnail_def)

theorem lookup_failure_appends_placeholder_witness:
  "addToQueue ''D'' (Some ''ann'') (Some 125) 7 (fetchVideoInfo ''D'' Rejected) True (abc True (Val (Num 2))) =
     ((abc True (Val (Num 2)))\<lparr>queue := [sample ''A'', sample ''B'', sample ''C'',
         \<lparr>videoId = ''D'', title = ''Video D'', channel = ''Unknown'',
          thumbnail = ''https://img.youtube.com/vi/D/mqdefault.jpg'',
          username = Some ''ann'', startTime = Some 125, addedAt = DateObject 7\<rparr>]\<rparr>, Silent)"
  using lookup_failure_appends_placeholder [where v = "''D''" and s = "abc True (Val (Num 2))"
      and u = "Some ''ann''" and st = "Some 125" and now = 7 and player = True]
  by (simp add: inQueue_def abc_def sample_def placeholder_def defaultThumbnail_def)

text \<open>
  Claim C10. The duplicate check looks at the queue only. When the current video has
  the identifier \<open>v\<close> and no item of the queue has it, as in consume mode after
  \<^verbatim>\<open>playNext\<close> took the item from the head, \<^verbatim>\<open>addToQueue\<close> appends a new item for
  \<open>v\<close>: the video that is playing is in the queue again.
\<close>

theorem current_video_can_be_enqueued_again:
  "currentVideo s = Val cur \<and> videoId cur = v \<and> \<not> inQueue v s \<longrightarrow>
     addToQueue v u st now res player s =
       (s\<lparr>queue := queue s @ [case res of Failed \<Rightarrow> placeholder v u st now
                                | Found t c th \<Rightarrow> queueItem v u st now t c th]\<rparr>, Silent)
     \<and> videoId (last (queue (fst (addToQueue v u st now res player s)))) = videoId cur"
  by (cases res) (auto simp add: addToQueue_def addToQueue_settled_def)

theorem current_video_can_be_enqueued_again_witness:
  "\<not> preservePlaylist playingA \<and> currentVideo playingA = Val (sample ''A'')
   \<and> queue playingA = [sample ''B'', sample ''C'']
   \<and> queue (fst (addToQueue ''A'' None None 9 (Found ''T'' ''Ch'' ''Th'') True playingA)) =
       [sample ''B'', sample ''C'', queueItem ''A'' None None 9 ''T'' ''Ch'' ''Th'']"
  using current_video_can_be_enqueued_again [where s = playingA and cur = "sample ''A''" and v = "''A''"
      and u = None and st = None and now = 9 and res = "Found ''T'' ''Ch'' ''Th''" and player = True]
  by (simp add: playingA_def playNext_def advance_def abc_def inQueue_def sample_def)

section \<open>Reordering: drop\<close>

lemma splice_start_in_range: "0 \<le> i \<Longrightarrow> i \<le> int n \<Longrightarrow> splice_start i n = nat i"
  by (simp add: splice_start_def)

lemma splice_remove_in_range:
  "0 \<le> i \<Longrightarrow> i < int (length xs) \<Longrightarrow> splice_remove i xs = take (nat i) xs @ drop (Suc (nat i)) xs"
  by (simp add: splice_remove_def splice_start_in_range)

lemma length_splice_remove_in_range:
  "0 \<le> i \<Longrightarrow> i < int (length xs) \<Longrightarrow> length (splice_remove i xs) = length xs - 1"
  by (auto simp add: splice_remove_in_range)

lemma splice_insert_in_range:
  "0 \<le> i \<Longrightarrow> i \<le> int (length xs) \<Longrightarrow> splice_insert i x xs = take (nat i) xs @ x # drop (nat i) xs"
  by (simp add: splice_insert_def splice_start_in_range)

lemma splice_remove_beyond: "int (length xs) \<le> i \<Longrightarrow> splice_remove i xs = xs"
  by (simp add: splice_remove_def splice_start_def)

text \<open>
  Claim C4. \<^verbatim>\<open>drop\<close> with equal indices changes nothing. With two different indices
  inside the queue it removes the item at the dragged index and inserts it at the drop
  index of the shortened queue. In preserve mode with the index at the number \<open>c\<close>,
  the index becomes the drop index when the dragged index is \<open>c\<close>, \<open>c - 1\<close> when
  the dragged index is below \<open>c\<close> and the drop index is not, \<open>c + 1\<close> when the
  dragged index is above \<open>c\<close> and the drop index is not, and stays otherwise; the
  comparisons are made on the indices as the drag reported them. In consume mode or with
  a null index the index stays. For the queue A, B, C, D with the index at 2, dragging 0 to
  3 gives B, C, D, A and the index 1.
\<close>

theorem drop_reorders_and_rebases:
  "drop_item (Val d) d s = Items s
   \<and> (0 \<le> d \<and> d < int (length (queue s)) \<and> 0 \<le> t \<and> t < int (length (queue s)) \<and> d \<noteq> t \<longrightarrow>
        drop_item (Val d) t s =
          Items (s\<lparr>queue := take (nat t) (take (nat d) (queue s) @ drop (Suc (nat d)) (queue s))
                              @ queue s ! nat d
                              # drop (nat t) (take (nat d) (queue s) @ drop (Suc (nat d)) (queue s)),
                   currentVideoIndex := rebase d t s\<rparr>))
   \<and> (preservePlaylist s \<and> currentVideoIndex s = Val (Num c) \<longrightarrow>
        rebase d t s =
          Val (Num (if d = c then t
                    else if d < c \<and> c \<le> t then c - 1
                    else if t \<le> c \<and> c < d then c + 1
                    else c)))
   \<and> (\<not> preservePlaylist s \<or> currentVideoIndex s = Null \<longrightarrow> rebase d t s = currentVideoIndex s)
   \<and> drop_item (Val 0) 3 abcd =
        Items (abcd\<lparr>queue := [sample ''B'', sample ''C'', sample ''D'', sample ''A''],
                    currentVideoIndex := Val (Num 1)\<rparr>)"
proof -
  have same: "drop_item (Val d) d s = Items s"
    by (simp add: drop_item_def)
  have move: "0 \<le> d \<and> d < int (length (queue s)) \<and> 0 \<le> t \<and> t < int (length (queue s)) \<and> d \<noteq> t \<longrightarrow>
        drop_item (Val d) t s =
          Items (s\<lparr>queue := take (nat t) (take (nat d) (queue s) @ drop (Suc (nat d)) (queue s))
                              @ queue s ! nat d
                              # drop (nat t) (take (nat d) (queue s) @ drop (Suc (nat d)) (queue s)),
                   currentVideoIndex := rebase d t s\<rparr>)"
  proof (intro impI, elim conjE)
    assume d: "0 \<le> d" "d < int (length (queue s))" and t: "0 \<le> t" "t < int (length (queue s))"
      and ne: "d \<noteq> t"
    have r: "splice_remove d (queue s) = take (nat d) (queue s) @ drop (Suc (nat d)) (queue s)"
      using d by (rule splice_remove_in_range)
    have "length (splice_remove d (queue s)) = length (queue s) - 1"
      using d by (rule length_splice_remove_in_range)
    then have "t \<le> int (length (splice_remove d (queue s)))" using t by simp
    then have i: "splice_insert t (queue s ! nat d) (splice_remove d (queue s)) =
        take (nat t) (splice_remove d (queue s)) @ queue s ! nat d # drop (nat t) (splice_remove d (queue s))"
      using t by (intro splice_insert_in_range) simp_all
    show "drop_item (Val d) t s =
          Items (s\<lparr>queue := take (nat t) (take (nat d) (queue s) @ drop (Suc (nat d)) (queue s))
                              @ queue s ! nat d
                              # drop (nat t) (take (nat d) (queue s) @ drop (Suc (nat d)) (queue s)),
                   currentVideoIndex := rebase d t s\<rparr>)"
    proof -
      have "drop_item (Val d) t s =
          Items (s\<lparr>queue := splice_insert t (queue s ! nat d) (splice_remove d (queue s)),
                   currentVideoIndex := rebase d t s\<rparr>)"
        using d ne by (simp add: drop_item_def)
      then show ?thesis by (simp only: r i [unfolded r])
    qed
  qed
  have idx: "preservePlaylist s \<and> currentVideoIndex s = Val (Num c) \<longrightarrow>
        rebase d t s =
          Val (Num (if d = c then t
                    else if d < c \<and> c \<le> t then c - 1
                    else if t \<le> c \<and> c < d then c + 1
                    else c))"
    by (simp add: rebase_def)
  have other: "\<not> preservePlaylist s \<or> currentVideoIndex s = Null \<longrightarrow> rebase d t s = currentVideoIndex s"
    by (auto simp add: rebase_def)
  have example: "drop_item (Val 0) 3 abcd =
        Items (abcd\<lparr>queue := [sample ''B'', sample ''C'', sample ''D'', sample ''A''],
                    currentVideoIndex := Val (Num 1)\<rparr>)"
    by (simp add: drop_item_def abcd_def rebase_def splice_insert_def splice_remove_def splice_start_def)
  from same move idx other example show ?thesis by blast
qed

text \<open>
  The theorem at D dragged to position 1 (the index moves up from 2 to 3), at the
  playing item dragged to the front, and at equal indices in consume mode.
\<close>

theorem drop_reorders_and_rebases_witness:
  "drop_item (Val 3) 1 abcd =
     Items (abcd\<lparr>queue := [sample ''A'', sample ''D'', sample ''B'', sample ''C''],
                 currentVideoIndex := Val (Num 3)\<rparr>)
   \<and> rebase 2 0 abcd = Val (Num 0)
   \<and> rebase 1 1 (abc False Null) = Null"
  using drop_reorders_and_rebases [where s = abcd and d = 3 and t = 1 and c = 2]
    drop_reorders_and_rebases [where s = abcd and d = 2 and t = 0 and c = 2]
    drop_reorders_and_rebases [where s = "abc False Null" and d = 1 and t = 1]
  by (simp add: abcd_def abc_def)

section \<open>Indices outside the queue\<close>

text \<open>
  The claim C5, that \<^verbatim>\<open>removeFromQueue\<close> and \<^verbatim>\<open>drop\<close> reject an index outside the
  queue and leave the state as it was, does not hold: the code makes no check and
  \<^verbatim>\<open>splice\<close> accepts every index. With the index \<open>-1\<close> \<^verbatim>\<open>removeFromQueue\<close>
  removes the last item; \<^verbatim>\<open>drop\<close> with a dragged index beyond the queue inserts
  undefined, and with a drop index beyond the queue it moves the item to the end.
\<close>

theorem out_of_range_index_counterexample:
  "queue (removeFromQueue (- 1) (abc True Null)) = [sample ''A'', sample ''B'']
   \<and> queue (abc True Null) = [sample ''A'', sample ''B'', sample ''C'']
   \<and> drop_item (Val 7) 0 (abc True Null) = HoldsUndefined
   \<and> drop_item (Val 0) 7 (abc True Null) =
       Items ((abc True Null)\<lparr>queue := [sample ''B'', sample ''C'', sample ''A''], currentVideoIndex := Null\<rparr>)"
  by (simp add: removeFromQueue_def drop_item_def abc_def rebase_def splice_insert_def splice_remove_def splice_start_def)

text \<open>
  Claim C5, amended. \<^verbatim>\<open>removeFromQueue\<close> returns a state for every index and signals
  nothing. With an index at or beyond the length of the queue it changes nothing; with
  an index inside the queue it removes the item there; and for every index it leaves
  the current video and the index of the current video as they were.
\<close>

theorem remove_beyond_the_end_changes_nothing:
  "(int (length (queue s)) \<le> index \<longrightarrow> removeFromQueue index s = s)
   \<and> (0 \<le> index \<and> index < int (length (queue s)) \<longrightarrow>
        queue (removeFromQueue index s) = take (nat index) (queue s) @ drop (Suc (nat index)) (queue s))
   \<and> currentVideo (removeFromQueue index s) = currentVideo s
   \<and> currentVideoIndex (removeFromQueue index s) = currentVideoIndex s"
  by (simp add: removeFromQueue_def splice_remove_beyond splice_remove_in_range)

theorem remove_beyond_the_end_changes_nothing_witness:
  "removeFromQueue 3 (abc True (Val (Num 2))) = abc True (Val (Num 2))
   \<and> queue (removeFromQueue 1 (abc True (Val (Num 2)))) = [sample ''A'', sample ''C'']"
  using remove_beyond_the_end_changes_nothing [where s = "abc True (Val (Num 2))" and index = 3]
    remove_beyond_the_end_changes_nothing [where s = "abc True (Val (Num 2))" and index = 1]
  by (simp add: abc_def)

section \<open>Switching the mode: togglePreservePlaylist\<close>

lemma findIndex_from_missing: "v \<notin> f ` set xs \<Longrightarrow> findIndex_from k (\<lambda>x. f x = v) xs = - 1"
  by (induction xs arbitrary: k) auto

lemma findIndex_from_found:
  "v \<in> f ` set xs \<Longrightarrow>
     k \<le> findIndex_from k (\<lambda>x. f x = v) xs
     \<and> findIndex_from k (\<lambda>x. f x = v) xs < k + int (length xs)
     \<and> f (xs ! nat (findIndex_from k (\<lambda>x. f x = v) xs - k)) = v
     \<and> v \<notin> f ` set (take (nat (findIndex_from k (\<lambda>x. f x = v) xs - k)) xs)"
proof (induction xs arbitrary: k)
  case Nil
  then show ?case by simp
next
  case (Cons x xs)
  show ?case
  proof (cases "f x = v")
    case True
    then show ?thesis by simp
  next
    case False
    then have "v \<in> f ` set xs" using Cons.prems by auto
    from Cons.IH [OF this, of "k + 1"]
    have ih: "k + 1 \<le> findIndex_from (k + 1) (\<lambda>x. f x = v) xs"
      "findIndex_from (k + 1) (\<lambda>x. f x = v) xs < k + 1 + int (length xs)"
      "f (xs ! nat (findIndex_from (k + 1) (\<lambda>x. f x = v) xs - (k + 1))) = v"
      "v \<notin> f ` set (take (nat (findIndex_from (k + 1) (\<lambda>x. f x = v) xs - (k + 1))) xs)"
      by simp_all
    have n: "nat (findIndex_from (k + 1) (\<lambda>x. f x = v) xs - k)
        = Suc (nat (findIndex_from (k + 1) (\<lambda>x. f x = v) xs - (k + 1)))"
      using ih(1) by linarith
    show ?thesis using False ih n by auto
  qed
qed

lemma togglePreservePlaylist_found:
  assumes "currentVideo s = Val cur" and "inQueue (videoId cur) s"
  shows "\<exists>k. togglePreservePlaylist True s = s\<lparr>preservePlaylist := True, currentVideoIndex := Val (Num (int k))\<rparr>
           \<and> k < length (queue s) \<and> videoId (queue s ! k) = videoId cur
           \<and> videoId cur \<notin> videoId ` set (take k (queue s))"
proof -
  let ?i = "findIndex (\<lambda>it. videoId it = videoId cur) (queue s)"
  have f: "0 \<le> ?i \<and> ?i < int (length (queue s)) \<and> videoId (queue s ! nat ?i) = videoId cur
      \<and> videoId cur \<notin> videoId ` set (take (nat ?i) (queue s))"
    using findIndex_from_found [of "videoId cur" videoId "queue s" 0] assms(2)
    by (simp add: findIndex_def inQueue_def)
  have "togglePreservePlaylist True s = s\<lparr>preservePlaylist := True, currentVideoIndex := Val (Num (int (nat ?i)))\<rparr>"
    using assms(1) f by (simp add: togglePreservePlaylist_def)
  moreover have "nat ?i < length (queue s)" using f by linarith
  ultimately show ?thesis using f by (intro exI [of _ "nat ?i"]) simp
qed

lemma togglePreservePlaylist_no_current:
  "falsy (currentVideo s) \<Longrightarrow>
     togglePreservePlaylist checked s = s\<lparr>preservePlaylist := checked, currentVideoIndex := Null\<rparr>"
  by (cases "currentVideo s") (simp_all add: togglePreservePlaylist_def)

lemma togglePreservePlaylist_consume:
  "togglePreservePlaylist False s = s\<lparr>preservePlaylist := False, currentVideoIndex := Null\<rparr>"
  by (cases "currentVideo s") (simp_all add: togglePreservePlaylist_def)

lemma togglePreservePlaylist_missing:
  "currentVideo s = Val cur \<Longrightarrow> \<not> inQueue (videoId cur) s \<Longrightarrow>
     togglePreservePlaylist True s = s\<lparr>preservePlaylist := True, currentVideoIndex := Val (Num (- 1))\<rparr>"
  by (simp add: togglePreservePlaylist_def findIndex_def inQueue_def findIndex_from_missing)

text \<open>
  Claim C6. Switching to consume mode sets the index to null and leaves the queue and the
  current video (\<open>togglePreservePlaylist_consume\<close>); switching to preserve mode
  without a current video sets the index to null (\<open>togglePreservePlaylist_no_current\<close>),
  and with a current video whose identifier is in the queue it sets the index to the
  first position of that identifier (\<open>togglePreservePlaylist_found\<close>). When the
  identifier is not in the queue, the index is not null: it is the \<open>-1\<close> that
  \<^verbatim>\<open>findIndex\<close> returns (\<open>togglePreservePlaylist_missing\<close>). That is the state
  after consume mode took the playing item from the queue; \<^verbatim>\<open>previous\<close> then moves
  the index to \<open>-2\<close>, makes the current video undefined and throws.
\<close>

theorem toggle_to_preserve_leaves_minus_one:
  "currentVideo playingA = Val (sample ''A'')
   \<and> map videoId (queue playingA) = [''B'', ''C'']
   \<and> currentVideoIndex (togglePreservePlaylist True playingA) = Val (Num (- 1))
   \<and> currentVideoIndex (fst (previous True (togglePreservePlaylist True playingA))) = Val (Num (- 2))
   \<and> currentVideo (fst (previous True (togglePreservePlaylist True playingA))) = Undefined
   \<and> snd (previous True (togglePreservePlaylist True playingA)) = TypeError"
  by (simp add: playingA_def playNext_def advance_def abc_def sample_def placeholder_def
      togglePreservePlaylist_def findIndex_def previous_def)

section \<open>Persistence: saveState and loadState\<close>

lemma json_item_isoStamped: "isoStamped it \<Longrightarrow> json_item it = it"
  by (cases "addedAt it") (simp_all add: isoStamped_def json_item_def)

lemma isoStamped_json_item [simp]: "isoStamped (json_item it)"
  by (cases "addedAt it") (simp_all add: isoStamped_def json_item_def)

lemma map_json_item_isoStamped: "list_all isoStamped xs \<Longrightarrow> map json_item xs = xs"
  by (induction xs) (simp_all add: json_item_isoStamped)

lemma reload_queue: "queue (reload a p s) = map json_item (queue s)"
  by (cases "currentVideo s")
     (simp_all add: reload_def connect_def saveState_def fresh_def restoreQueue_def restoreCurrent_def
        restoreAutoplay_def restorePreserve_def)

lemma reload_flags: "autoplay (reload a p s) = autoplay s \<and> preservePlaylist (reload a p s) = preservePlaylist s"
  by (cases "currentVideo s")
     (simp_all add: reload_def connect_def saveState_def fresh_def restoreQueue_def restoreCurrent_def
        restoreAutoplay_def restorePreserve_def)

lemma reload_currentVideo:
  "currentVideo (reload a p s) = (case currentVideo s of Val v \<Rightarrow> Val (json_item v) | Null \<Rightarrow> Null | Undefined \<Rightarrow> Null)"
  by (cases "currentVideo s")
     (simp_all add: reload_def connect_def saveState_def fresh_def restoreQueue_def restoreCurrent_def
        restoreAutoplay_def restorePreserve_def)

lemma restoreIndex_saved:
  "i \<noteq> Val NaN \<Longrightarrow>
     restoreIndex (case i of Val (Num k) \<Rightarrow> Val k | Val NaN \<Rightarrow> Null | Null \<Rightarrow> Null | Undefined \<Rightarrow> Undefined) = i"
proof (cases i)
  case (Val n)
  assume "i \<noteq> Val NaN"
  with Val show ?thesis by (cases n) (simp_all add: restoreIndex_def)
qed (simp_all add: restoreIndex_def)

lemma reload_currentVideoIndex:
  "currentVideoIndex (reload a p s) =
     (case currentVideo s of
        Val v \<Rightarrow> (if currentVideoIndex s = Val NaN then Null else currentVideoIndex s)
      | Null \<Rightarrow> Null
      | Undefined \<Rightarrow> Null)"
proof (cases "currentVideo s")
  case (Val v)
  show ?thesis
  proof (cases "currentVideoIndex s = Val NaN")
    case True
    with Val show ?thesis
      by (simp add: reload_def connect_def saveState_def fresh_def restoreQueue_def restoreCurrent_def
          restoreAutoplay_def restorePreserve_def restoreIndex_def)
  next
    case False
    with Val restoreIndex_saved [OF False] show ?thesis
      by (simp add: reload_def connect_def saveState_def fresh_def restoreQueue_def restoreCurrent_def
          restoreAutoplay_def restorePreserve_def)
  qed
qed (simp_all add: reload_def connect_def saveState_def fresh_def restoreQueue_def restoreCurrent_def
        restoreAutoplay_def restorePreserve_def)

text \<open>
  The claim C1, that loading what was saved gives the state back, does not hold for every
  state. \<^verbatim>\<open>loadState\<close> assigns the index only when the stored current video is not
  null: after \<^verbatim>\<open>stop\<close> in preserve mode the current video is null and the index is
  0, and the state that is loaded has the index null. And an item that was enqueued in
  this page carries a Date, which comes back as a string.
\<close>

theorem reload_counterexample:
  "currentVideo stopped = Null
   \<and> currentVideoIndex stopped = Val (Num 0)
   \<and> currentVideoIndex (reload False True stopped) = Null
   \<and> reload False True stopped \<noteq> stopped
   \<and> queue (reload False True abcd) \<noteq> queue abcd"
proof -
  have s: "stopped =
      \<lparr>queue = [json_item (queueItem ''A'' None None 0 ''Title'' ''Channel'' ''Thumb'')],
       currentVideo = Null, currentVideoIndex = Val (Num 0), autoplay = False, preservePlaylist = True\<rparr>"
    by (simp add: stopped_def stop_def reload_def connect_def saveState_def fresh_def restoreQueue_def
        restoreCurrent_def restoreAutoplay_def restorePreserve_def restoreIndex_def addToQueue_def
        addToQueue_settled_def inQueue_def playNext_def advance_def loadCommand_def js_rem_def)
  have i: "currentVideoIndex (reload False True stopped) = Null"
    by (simp add: reload_currentVideoIndex s)
  have q: "queue (reload False True abcd) \<noteq> queue abcd"
    by (simp add: reload_queue abcd_def sample_def placeholder_def json_item_def)
  have c: "currentVideo stopped = Null" by (simp add: s)
  have j: "currentVideoIndex stopped = Val (Num 0)" by (simp add: s)
  from i j have ne: "reload False True stopped \<noteq> stopped" by auto
  from c j i ne q show ?thesis by blast
qed

text \<open>
  Claim C1, amended. For a state that the stored record can hold (\<open>storable\<close>: every
  \<^verbatim>\<open>addedAt\<close> a string, the current video null or an item, the index not NaN, the
  index null when the current video is null; and every \<^verbatim>\<open>startTime\<close> null or a natural
  number, as the type of the items has it), saving and loading again gives the same state. For every state the queue comes back
  item by item with the Date of \<^verbatim>\<open>addedAt\<close> as a string, \<open>autoplay\<close> and the mode
  come back as they were, and when there is a current video and the index is not NaN the
  current video comes back (its Date as a string) with its index.
\<close>

theorem reload_reproduces_stored_state:
  "(storable s \<longrightarrow> reload a p s = s)
   \<and> queue (reload a p s) = map json_item (queue s)
   \<and> autoplay (reload a p s) = autoplay s
   \<and> preservePlaylist (reload a p s) = preservePlaylist s
   \<and> (currentVideo s = Val v \<and> currentVideoIndex s \<noteq> Val NaN \<longrightarrow>
        currentVideo (reload a p s) = Val (json_item v)
        \<and> currentVideoIndex (reload a p s) = currentVideoIndex s)"
proof -
  have whole: "storable s \<longrightarrow> reload a p s = s"
  proof
    assume st: "storable s"
    then have q: "queue (reload a p s) = queue s"
      by (simp add: reload_queue storable_def map_json_item_isoStamped)
    have c: "currentVideo (reload a p s) = currentVideo s"
      using st by (cases "currentVideo s") (simp_all add: reload_currentVideo storable_def json_item_isoStamped)
    have i: "currentVideoIndex (reload a p s) = currentVideoIndex s"
      using st by (cases "currentVideo s") (simp_all add: reload_currentVideoIndex storable_def)
    show "reload a p s = s"
      using q c i reload_flags [of a p s] by (intro state.equality) simp_all
  qed
  from whole reload_queue [of a p s] reload_flags [of a p s]
    reload_currentVideo [of a p s] reload_currentVideoIndex [of a p s]
  show ?thesis by simp
qed

theorem reload_reproduces_stored_state_witness:
  "storable (reload False True abcd)
   \<and> reload False True (reload False True abcd) = reload False True abcd
   \<and> currentVideo (reload False True abcd) = Val (json_item (sample ''C''))
   \<and> currentVideoIndex (reload False True abcd) = Val (Num 2)"
proof -
  have st: "storable (reload False True abcd)"
    by (simp add: storable_def reload_queue reload_currentVideo reload_currentVideoIndex abcd_def)
  have cur: "currentVideo abcd = Val (sample ''C'') \<and> currentVideoIndex abcd \<noteq> Val NaN"
    by (simp add: abcd_def)
  from st cur reload_reproduces_stored_state [where s = "reload False True abcd" and a = False and p = True]
    reload_reproduces_stored_state [where s = abcd and a = False and p = True and v = "sample ''C''"]
  show ?thesis by (simp add: abcd_def)
qed

section \<open>Defaults of loadState\<close>

text \<open>
  The claim C7 names consume mode as the default. With nothing stored the mode is the
  Stimulus value \<^verbatim>\<open>preservePlaylist\<close>, whose default is true: preserve mode.
\<close>

theorem default_mode_counterexample:
  "preservePlaylist (connect autoplayValue_default preservePlaylistValue_default NoItem)"
  by (simp add: connect_def fresh_def preservePlaylistValue_default_def)

text \<open>
  Claim C7, amended. With nothing stored, and with a stored text that cannot be parsed,
  \<^verbatim>\<open>connect\<close> leaves the state it set up: the empty queue, no current video, a null
  index, and \<open>autoplay\<close> and the mode from the Stimulus values, which default to false
  and to preserve mode; the failure of parsing is caught. A stored object that lacks a
  key keeps the default for it: the empty queue without \<^verbatim>\<open>queue\<close>, no current video
  and a null index without \<^verbatim>\<open>currentVideo\<close>, the values without \<^verbatim>\<open>autoplay\<close> and
  \<^verbatim>\<open>preservePlaylist\<close>. A record of the earlier version, which has no mode, gets the
  mode of the values.
\<close>

theorem loadState_defaults:
  "connect a p NoItem = fresh a p
   \<and> connect a p Unparseable = fresh a p
   \<and> fresh autoplayValue_default preservePlaylistValue_default =
       \<lparr>queue = [], currentVideo = Null, currentVideoIndex = Null, autoplay = False, preservePlaylist = True\<rparr>
   \<and> (saved_queue r = None \<longrightarrow> queue (connect a p (Parsed r)) = [])
   \<and> (falsy (saved_currentVideo r) \<longrightarrow>
        currentVideo (connect a p (Parsed r)) = Null \<and> currentVideoIndex (connect a p (Parsed r)) = Null)
   \<and> (saved_autoplay r = None \<longrightarrow> autoplay (connect a p (Parsed r)) = a)
   \<and> (saved_preservePlaylist r = None \<longrightarrow> preservePlaylist (connect a p (Parsed r)) = p)
   \<and> preservePlaylist (connect a p (Parsed (saveState_old s))) = p"
proof -
  have q: "saved_queue r = None \<longrightarrow> queue (connect a p (Parsed r)) = []"
    by (cases "saved_currentVideo r"; cases "saved_autoplay r"; cases "saved_preservePlaylist r")
       (simp_all add: connect_def fresh_def restoreQueue_def restoreCurrent_def restoreAutoplay_def restorePreserve_def)
  have c: "falsy (saved_currentVideo r) \<longrightarrow>
        currentVideo (connect a p (Parsed r)) = Null \<and> currentVideoIndex (connect a p (Parsed r)) = Null"
    by (cases "saved_currentVideo r"; cases "saved_queue r"; cases "saved_autoplay r"; cases "saved_preservePlaylist r")
       (simp_all add: connect_def fresh_def restoreQueue_def restoreCurrent_def restoreAutoplay_def restorePreserve_def)
  have au: "saved_autoplay r = None \<longrightarrow> autoplay (connect a p (Parsed r)) = a"
    by (cases "saved_currentVideo r"; cases "saved_queue r"; cases "saved_preservePlaylist r")
       (simp_all add: connect_def fresh_def restoreQueue_def restoreCurrent_def restoreAutoplay_def restorePreserve_def)
  have pr: "saved_preservePlaylist r = None \<longrightarrow> preservePlaylist (connect a p (Parsed r)) = p"
    by (cases "saved_currentVideo r"; cases "saved_queue r"; cases "saved_autoplay r")
       (simp_all add: connect_def fresh_def restoreQueue_def restoreCurrent_def restoreAutoplay_def restorePreserve_def)
  have old: "preservePlaylist (connect a p (Parsed (saveState_old s))) = p"
    by (cases "currentVideo s")
       (simp_all add: connect_def fresh_def saveState_old_def restoreQueue_def restoreCurrent_def
          restoreAutoplay_def restorePreserve_def)
  have d: "fresh autoplayValue_default preservePlaylistValue_default =
       \<lparr>queue = [], currentVideo = Null, currentVideoIndex = Null, autoplay = False, preservePlaylist = True\<rparr>"
    by (simp add: fresh_def autoplayValue_default_def preservePlaylistValue_default_def)
  from q c au pr old d show ?thesis by (simp add: connect_def)
qed

theorem loadState_defaults_witness:
  "connect False True (Parsed nothingSaved) =
     \<lparr>queue = [], currentVideo = Null, currentVideoIndex = Null, autoplay = False, preservePlaylist = True\<rparr>"
  using loadState_defaults [where r = nothingSaved and a = False and p = True]
  by (intro state.equality) (simp_all add: nothingSaved_def)

text \<open>
  A record of the earlier version that has a current video has no index: the index is
  then assigned undefined, not null, and in preserve mode the next \<^verbatim>\<open>playNext\<close>
  computes NaN from it, makes the current video undefined and throws at the player.
\<close>

lemma old_record_leaves_index_undefined:
  "currentVideo s = Val v \<Longrightarrow>
     currentVideoIndex (connect a p (Parsed (saveState_old s))) = Undefined
     \<and> (queue s \<noteq> [] \<and> p \<longrightarrow>
          playNext manual True (connect a p (Parsed (saveState_old s))) =
            ((connect a p (Parsed (saveState_old s)))\<lparr>currentVideoIndex := Val NaN, currentVideo := Undefined\<rparr>,
             TypeError))"
  by (simp add: connect_def fresh_def saveState_old_def restoreQueue_def restoreCurrent_def
      restoreAutoplay_def restorePreserve_def restoreIndex_def playNext_def advance_def loadCommand_def)

section \<open>The start offset of a link\<close>















lemma parseInt_snoc: "parseInt (d @ [c]) = 10 * parseInt d + (of_char c - 48)"
  by (simp add: parseInt_def)












end
